theory Spec2Isabelle
  imports Main
begin

section \<open>Data model of \<open>src/App.tsx\<close>\<close>

text \<open>
  JavaScript strings are modelled as \<^typ>\<open>string\<close> holding the UTF-8 bytes of the text.
  The only string operations of the component are \<open>startsWith\<close> with an ASCII argument and
  concatenation, and both agree on well-formed text whether it is read as UTF-16 code units
  or as UTF-8 bytes.
\<close>

text \<open>A \<open>Blob\<close> as far as the component reads it: its media type and its byte size.\<close>

record Blob =
  blob_type :: string
  blob_size :: nat

text \<open>A \<open>File\<close>: \<open>file.type\<close>, \<open>file.size\<close> and \<open>file.name\<close>.\<close>

record File =
  file_type :: string
  file_size :: nat
  file_name :: string

text \<open>
  An object URL as \<open>URL.createObjectURL\<close> hands it out. The browser makes every one of
  them unique; the number stands for the unique part of the \<open>blob:\<close> URL.
\<close>

datatype object_url = BlobUrl nat

text \<open>The interface \<open>ProcessedImage\<close> (lines 6 to 10).\<close>

record ProcessedImage =
  original :: object_url
  processed :: object_url
  filename :: string

text \<open>How an awaited promise settles.\<close>

datatype 'a settled = Fulfilled 'a | Rejected

text \<open>
  What \<open>await fetch(imageUrl)\<close> followed by \<open>await response.blob()\<close> can give:
  \<open>fetch\<close> rejects (a network error), or it fulfils with a response of any HTTP status,
  whose body is then read as a blob (which may reject in turn). \<open>fetch\<close> does not reject
  on a status outside 200 to 299; it sets \<open>response.ok\<close> to false.
\<close>

datatype fetch_result =
  NetworkError
  | Response (response_ok: bool) (response_status: nat) (response_blob: "Blob settled")

text \<open>
  The state the handlers read and write. The first four fields are the \<open>useState\<close> cells
  of lines 13 to 16. \<open>fileInputValue\<close> is \<open>fileInputRef.current\<close>: \<open>None\<close> while the
  file input is not mounted, otherwise the input's \<open>value\<close>. The remaining fields record
  the effects on the browser: \<open>objectUrls\<close> are the live entries of the blob URL store
  in creation order and \<open>urlCounter\<close> numbers the next one; \<open>removeBackgroundCalls\<close>
  are the calls issued to the external library; \<open>downloads\<close> are the anchor clicks made by
  \<open>handleDownload\<close>, each with its \<open>href\<close> and its \<open>download\<close> attribute.
  The source never calls \<open>URL.revokeObjectURL\<close>, so nothing removes an entry of
  \<open>objectUrls\<close>. The two \<open>console.error\<close> calls are not recorded.
\<close>

record world =
  isDragging :: bool
  isProcessing :: bool
  processedImage :: "ProcessedImage option"
  error :: "string option"
  fileInputValue :: "string option"
  objectUrls :: "object_url list"
  urlCounter :: nat
  removeBackgroundCalls :: "File list"
  downloads :: "(object_url \<times> string) list"

text \<open>The component as first rendered: the upload area, with its file input, is shown.\<close>

definition initial_world :: world where
  "initial_world =
     \<lparr>isDragging = False, isProcessing = False, processedImage = None, error = None,
      fileInputValue = Some [], objectUrls = [], urlCounter = 0,
      removeBackgroundCalls = [], downloads = []\<rparr>"

subsection \<open>String constants of the source\<close>

text \<open>\<open>String.prototype.startsWith\<close> at position 0.\<close>

definition startsWith :: "string \<Rightarrow> string \<Rightarrow> bool" where
  "startsWith s searchString = (take (length searchString) s = searchString)"

text \<open>
  Line 86, "please choose a valid image file (PNG, JPG, etc.)":
  U+8BF7 U+9009 U+62E9 U+6709 U+6548 U+7684 U+56FE U+7247 U+6587 U+4EF6 U+FF08 P N G U+3001
  J P G U+7B49 U+FF09.
\<close>

definition MSG_INVALID_TYPE :: string where
  "MSG_INVALID_TYPE =
     [CHR 0xE8, CHR 0xAF, CHR 0xB7, CHR 0xE9, CHR 0x80, CHR 0x89, CHR 0xE6, CHR 0x8B, CHR 0xA9,
      CHR 0xE6, CHR 0x9C, CHR 0x89, CHR 0xE6, CHR 0x95, CHR 0x88, CHR 0xE7, CHR 0x9A, CHR 0x84,
      CHR 0xE5, CHR 0x9B, CHR 0xBE, CHR 0xE7, CHR 0x89, CHR 0x87, CHR 0xE6, CHR 0x96, CHR 0x87,
      CHR 0xE4, CHR 0xBB, CHR 0xB6, CHR 0xEF, CHR 0xBC, CHR 0x88] @ ''PNG'' @
     [CHR 0xE3, CHR 0x80, CHR 0x81] @ ''JPG'' @
     [CHR 0xE7, CHR 0xAD, CHR 0x89, CHR 0xEF, CHR 0xBC, CHR 0x89]"

text \<open>
  Line 92, "image size must be smaller than 10MB":
  U+56FE U+7247 U+5927 U+5C0F U+5FC5 U+987B U+5C0F U+4E8E 1 0 M B.
\<close>

definition MSG_TOO_LARGE :: string where
  "MSG_TOO_LARGE =
     [CHR 0xE5, CHR 0x9B, CHR 0xBE, CHR 0xE7, CHR 0x89, CHR 0x87, CHR 0xE5, CHR 0xA4, CHR 0xA7,
      CHR 0xE5, CHR 0xB0, CHR 0x8F, CHR 0xE5, CHR 0xBF, CHR 0x85, CHR 0xE9, CHR 0xA1, CHR 0xBB,
      CHR 0xE5, CHR 0xB0, CHR 0x8F, CHR 0xE4, CHR 0xBA, CHR 0x8E] @ ''10MB''"

text \<open>
  Line 78, "loading the sample image failed, please try uploading your own image.":
  U+52A0 U+8F7D U+6837 U+672C U+56FE U+7247 U+5931 U+8D25 U+FF0C U+8BF7 U+5C1D U+8BD5 U+4E0A
  U+4F20 U+60A8 U+81EA U+5DF1 U+7684 U+56FE U+7247 U+3002.
\<close>

definition MSG_SAMPLE_FAILED :: string where
  "MSG_SAMPLE_FAILED =
     [CHR 0xE5, CHR 0x8A, CHR 0xA0, CHR 0xE8, CHR 0xBD, CHR 0xBD, CHR 0xE6, CHR 0xA0, CHR 0xB7,
      CHR 0xE6, CHR 0x9C, CHR 0xAC, CHR 0xE5, CHR 0x9B, CHR 0xBE, CHR 0xE7, CHR 0x89, CHR 0x87,
      CHR 0xE5, CHR 0xA4, CHR 0xB1, CHR 0xE8, CHR 0xB4, CHR 0xA5, CHR 0xEF, CHR 0xBC, CHR 0x8C,
      CHR 0xE8, CHR 0xAF, CHR 0xB7, CHR 0xE5, CHR 0xB0, CHR 0x9D, CHR 0xE8, CHR 0xAF, CHR 0x95,
      CHR 0xE4, CHR 0xB8, CHR 0x8A, CHR 0xE4, CHR 0xBC, CHR 0xA0, CHR 0xE6, CHR 0x82, CHR 0xA8,
      CHR 0xE8, CHR 0x87, CHR 0xAA, CHR 0xE5, CHR 0xB7, CHR 0xB1, CHR 0xE7, CHR 0x9A, CHR 0x84,
      CHR 0xE5, CHR 0x9B, CHR 0xBE, CHR 0xE7, CHR 0x89, CHR 0x87, CHR 0xE3, CHR 0x80, CHR 0x82]"

text \<open>
  Line 115, "background removal failed, please try another image.":
  U+80CC U+666F U+79FB U+9664 U+5931 U+8D25 U+FF0C U+8BF7 U+5C1D U+8BD5 U+5176 U+4ED6 U+56FE
  U+7247 U+3002.
\<close>

definition MSG_PROCESSING_FAILED :: string where
  "MSG_PROCESSING_FAILED =
     [CHR 0xE8, CHR 0x83, CHR 0x8C, CHR 0xE6, CHR 0x99, CHR 0xAF, CHR 0xE7, CHR 0xA7, CHR 0xBB,
      CHR 0xE9, CHR 0x99, CHR 0xA4, CHR 0xE5, CHR 0xA4, CHR 0xB1, CHR 0xE8, CHR 0xB4, CHR 0xA5,
      CHR 0xEF, CHR 0xBC, CHR 0x8C, CHR 0xE8, CHR 0xAF, CHR 0xB7, CHR 0xE5, CHR 0xB0, CHR 0x9D,
      CHR 0xE8, CHR 0xAF, CHR 0x95, CHR 0xE5, CHR 0x85, CHR 0xB6, CHR 0xE4, CHR 0xBB, CHR 0x96,
      CHR 0xE5, CHR 0x9B, CHR 0xBE, CHR 0xE7, CHR 0x89, CHR 0x87, CHR 0xE3, CHR 0x80, CHR 0x82]"

text \<open>
  Line 126, the prefix of the download name, "background removed-":
  U+5DF2 U+79FB U+9664 U+80CC U+666F followed by a hyphen.
\<close>

definition DOWNLOAD_PREFIX :: string where
  "DOWNLOAD_PREFIX =
     [CHR 0xE5, CHR 0xB7, CHR 0xB2, CHR 0xE7, CHR 0xA7, CHR 0xBB, CHR 0xE9, CHR 0x99, CHR 0xA4,
      CHR 0xE8, CHR 0x83, CHR 0x8C, CHR 0xE6, CHR 0x99, CHR 0xAF] @ ''-''"

text \<open>Line 91: \<open>10 * 1024 * 1024\<close>.\<close>

definition MAX_FILE_SIZE :: nat where
  "MAX_FILE_SIZE = 10 * 1024 * 1024"

section \<open>The handlers\<close>

text \<open>\<open>URL.createObjectURL\<close>: a new entry of the blob URL store, and its URL.\<close>

definition createObjectURL :: "world \<Rightarrow> object_url \<times> world" where
  "createObjectURL w =
     (BlobUrl (urlCounter w),
      w\<lparr>objectUrls := objectUrls w @ [BlobUrl (urlCounter w)],
        urlCounter := Suc (urlCounter w)\<rparr>)"

text \<open>
  \<open>processImage\<close> (lines 83 to 119) up to its \<open>await\<close>. An async function runs
  synchronously until its first \<open>await\<close>: the two checks, the three state writes of lines 96
  to 98, \<open>URL.createObjectURL(file)\<close> of line 102 and the call \<open>removeBackground(file)\<close>
  of line 105. The second component is \<open>None\<close> when a check returned early, and otherwise
  the \<open>originalUrl\<close> the suspended routine holds.
\<close>

definition processImage_begin :: "File \<Rightarrow> world \<Rightarrow> world \<times> object_url option" where
  "processImage_begin file w =
     (if \<not> startsWith (file_type file) ''image/'' then
        (w\<lparr>error := Some MSG_INVALID_TYPE\<rparr>, None)
      else if file_size file > MAX_FILE_SIZE then
        (w\<lparr>error := Some MSG_TOO_LARGE\<rparr>, None)
      else
        (let w1 = w\<lparr>error := None, isProcessing := True, processedImage := None\<rparr>;
             (originalUrl, w2) = createObjectURL w1;
             w3 = w2\<lparr>removeBackgroundCalls := removeBackgroundCalls w2 @ [file]\<rparr>
         in (w3, Some originalUrl)))"

text \<open>
  \<open>processImage\<close> from the moment \<open>removeBackground\<close> settles: lines 106 to 112 when it
  fulfils, the \<open>catch\<close> of lines 113 to 115 when it rejects, and the \<open>finally\<close> of line 117
  in both cases.
\<close>

definition processImage_settle ::
  "File \<Rightarrow> object_url \<Rightarrow> Blob settled \<Rightarrow> world \<Rightarrow> world" where
  "processImage_settle file originalUrl outcome w =
     (let w1 =
        (case outcome of
           Fulfilled blob \<Rightarrow>
             (let (processedUrl, w') = createObjectURL w
              in w'\<lparr>processedImage :=
                      Some \<lparr>original = originalUrl, processed = processedUrl,
                            filename = file_name file\<rparr>\<rparr>)
         | Rejected \<Rightarrow> w\<lparr>error := Some MSG_PROCESSING_FAILED\<rparr>)
      in w1\<lparr>isProcessing := False\<rparr>)"

text \<open>
  A whole run of \<open>processImage\<close> with nothing else happening while it is suspended;
  \<open>outcome\<close> is how \<open>removeBackground\<close> settles if it is called.
\<close>

definition processImage :: "File \<Rightarrow> Blob settled \<Rightarrow> world \<Rightarrow> world" where
  "processImage file outcome w =
     (case processImage_begin file w of
        (w', None) \<Rightarrow> w'
      | (w', Some originalUrl) \<Rightarrow> processImage_settle file originalUrl outcome w')"

text \<open>\<open>handleDragOver\<close> and \<open>handleDragLeave\<close> (lines 35 to 43).\<close>

definition handleDragOver :: "world \<Rightarrow> world" where
  "handleDragOver w = w\<lparr>isDragging := True\<rparr>"

definition handleDragLeave :: "world \<Rightarrow> world" where
  "handleDragLeave w = w\<lparr>isDragging := False\<rparr>"

text \<open>
  \<open>handleDrop\<close> (lines 45 to 52) and \<open>handleFileSelect\<close> (lines 54 to 59) up to the
  \<open>await\<close> of the \<open>processImage\<close> they start and do not wait for. \<open>e.target.files\<close> may
  be null, hence the option.
\<close>

definition handleDrop_begin :: "File list \<Rightarrow> world \<Rightarrow> world \<times> (File \<times> object_url) option" where
  "handleDrop_begin files w =
     (let w1 = w\<lparr>isDragging := False\<rparr>
      in case files of
           [] \<Rightarrow> (w1, None)
         | file # _ \<Rightarrow>
             (case processImage_begin file w1 of
                (w2, None) \<Rightarrow> (w2, None)
              | (w2, Some u) \<Rightarrow> (w2, Some (file, u))))"

definition handleFileSelect_begin ::
  "File list option \<Rightarrow> world \<Rightarrow> world \<times> (File \<times> object_url) option" where
  "handleFileSelect_begin files w =
     (case files of
        None \<Rightarrow> (w, None)
      | Some [] \<Rightarrow> (w, None)
      | Some (file # _) \<Rightarrow>
          (case processImage_begin file w of
             (w2, None) \<Rightarrow> (w2, None)
           | (w2, Some u) \<Rightarrow> (w2, Some (file, u))))"

text \<open>
  \<open>handleSampleImageClick\<close> (lines 61 to 81). First the part before \<open>await fetch\<close>:
  lines 62 to 64.
\<close>

definition handleSampleImageClick_begin :: "world \<Rightarrow> world" where
  "handleSampleImageClick_begin w =
     w\<lparr>error := None, isProcessing := True, processedImage := None\<rparr>"

text \<open>The \<open>catch\<close> of lines 76 to 80.\<close>

definition handleSampleImageClick_catch :: "world \<Rightarrow> world" where
  "handleSampleImageClick_catch w =
     w\<lparr>error := Some MSG_SAMPLE_FAILED, isProcessing := False\<rparr>"

text \<open>
  Then the part from the moment the fetch and the reading of the body have settled, up to
  the \<open>await\<close> inside \<open>processImage\<close>. Neither \<open>response.ok\<close> nor \<open>response.status\<close> is
  read: lines 68 to 72 build the file from whatever body arrived, with the blob's type and
  size and the given name. Only a rejection reaches the \<open>catch\<close>.
\<close>

definition handleSampleImageClick_fetched ::
  "string \<Rightarrow> fetch_result \<Rightarrow> world \<Rightarrow> world \<times> (File \<times> object_url) option" where
  "handleSampleImageClick_fetched name fr w =
     (case fr of
        NetworkError \<Rightarrow> (handleSampleImageClick_catch w, None)
      | Response ok status body \<Rightarrow>
          (case body of
             Rejected \<Rightarrow> (handleSampleImageClick_catch w, None)
           | Fulfilled blob \<Rightarrow>
               (let file = \<lparr>file_type = blob_type blob, file_size = blob_size blob,
                            file_name = name\<rparr>
                in case processImage_begin file w of
                     (w2, None) \<Rightarrow> (w2, None)
                   | (w2, Some u) \<Rightarrow> (w2, Some (file, u)))))"

text \<open>
  A whole sample click with nothing else happening while it is suspended. \<open>processImage\<close>
  catches its own failure, so \<open>await processImage(file)\<close> never throws into the
  \<open>catch\<close> of line 76.
\<close>

definition handleSampleImageClick ::
  "string \<Rightarrow> string \<Rightarrow> fetch_result \<Rightarrow> Blob settled \<Rightarrow> world \<Rightarrow> world" where
  "handleSampleImageClick imageUrl name fr outcome w =
     (case handleSampleImageClick_fetched name fr (handleSampleImageClick_begin w) of
        (w', None) \<Rightarrow> w'
      | (w', Some (file, originalUrl)) \<Rightarrow> processImage_settle file originalUrl outcome w')"

text \<open>
  \<open>handleDownload\<close> (lines 121 to 130): nothing without a result; otherwise an anchor with
  the processed URL as \<open>href\<close> and the prefixed name as \<open>download\<close> is appended to the
  body, clicked and removed again.
\<close>

definition handleDownload :: "world \<Rightarrow> world" where
  "handleDownload w =
     (case processedImage w of
        None \<Rightarrow> w
      | Some img \<Rightarrow>
          w\<lparr>downloads := downloads w @ [(processed img, DOWNLOAD_PREFIX @ filename img)]\<rparr>)"

text \<open>\<open>handleReset\<close> (lines 132 to 138).\<close>

definition handleReset :: "world \<Rightarrow> world" where
  "handleReset w =
     (let w1 = w\<lparr>processedImage := None, error := None\<rparr>
      in case fileInputValue w1 of
           None \<Rightarrow> w1
         | Some _ \<Rightarrow> w1\<lparr>fileInputValue := Some []\<rparr>)"

section \<open>The component as a transition system\<close>

text \<open>The array \<open>sampleImages\<close> (lines 20 to 33): URL and file name of each sample.\<close>

definition sampleImages :: "(string \<times> string) list" where
  "sampleImages =
     [(''https://ugc.same-assets.com/OTshhTxyo3h08kkKwkcfgkfI49AwJiYU.jpeg'',
       ''sample-portrait-1.jpg''),
      (''https://ugc.same-assets.com/do4oamYjSeZV6RjAnhlprWGZEntF3cTB.jpeg'',
       ''sample-portrait-2.jpg''),
      (''https://ugc.same-assets.com/EAaFTepZgfyGkWXOiJJaBMW3hPVySIrc.jpeg'',
       ''sample-portrait-3.jpg'')]"

text \<open>
  The two conditions of the JSX that decide which controls exist. Line 158 renders the
  upload area (drop zone, file input and sample buttons) under
  \<open>!processedImage && !isProcessing\<close>; line 238 renders the result pane (reset and
  download buttons) under \<open>processedImage\<close>. A control that is not rendered cannot
  deliver its event.
\<close>

definition uploadAreaShown :: "world \<Rightarrow> bool" where
  "uploadAreaShown w = (processedImage w = None \<and> \<not> isProcessing w)"

definition resultShown :: "world \<Rightarrow> bool" where
  "resultShown w = (processedImage w \<noteq> None)"

text \<open>
  After every state change the component renders again, and React keeps
  \<open>fileInputRef.current\<close> in step with it: null while the file input is not rendered,
  and the input element (a new one, with an empty value, when it was not there before)
  while it is.
\<close>

definition render :: "world \<Rightarrow> world" where
  "render w =
     w\<lparr>fileInputValue :=
         (if uploadAreaShown w
          then Some (case fileInputValue w of None \<Rightarrow> [] | Some v \<Rightarrow> v)
          else None)\<rparr>"

text \<open>
  A suspended routine: \<open>handleSampleImageClick\<close> waiting for its fetch, with the file
  name it was given, or \<open>processImage\<close> waiting for \<open>removeBackground\<close>, with its
  file and its \<open>originalUrl\<close>.
\<close>

datatype pending = AwaitFetch string | AwaitRemoveBackground File object_url

text \<open>
  What can happen to the component: the user's actions on the rendered controls, and the
  settling of an awaited promise (the number says which suspended routine resumes).
  A file selection carries the value the browser gives the input, and the chosen files.
\<close>

datatype event =
  DragOver
  | DragLeave
  | Drop "File list"
  | FileSelect string "File list"
  | SampleClick nat
  | FetchSettles nat fetch_result
  | RemoveBackgroundSettles nat "Blob settled"
  | Download
  | Reset

definition remove_nth :: "nat \<Rightarrow> 'a list \<Rightarrow> 'a list" where
  "remove_nth k xs = take k xs @ drop (Suc k) xs"

definition suspend :: "pending list \<Rightarrow> (File \<times> object_url) option \<Rightarrow> pending list" where
  "suspend ps r =
     (case r of None \<Rightarrow> ps | Some (file, u) \<Rightarrow> ps @ [AwaitRemoveBackground file u])"

text \<open>
  One event, on the state and the suspended routines. The result is \<open>None\<close> when the
  event cannot happen: its control is not rendered, or no such routine is waiting.
\<close>

fun step :: "event \<Rightarrow> world \<times> pending list \<Rightarrow> (world \<times> pending list) option" where
  "step DragOver (w, ps) =
     (if uploadAreaShown w then Some (render (handleDragOver w), ps) else None)"
| "step DragLeave (w, ps) =
     (if uploadAreaShown w then Some (render (handleDragLeave w), ps) else None)"
| "step (Drop files) (w, ps) =
     (if uploadAreaShown w
      then (case handleDrop_begin files w of (w', r) \<Rightarrow> Some (render w', suspend ps r))
      else None)"
| "step (FileSelect v files) (w, ps) =
     (if uploadAreaShown w
      then (case handleFileSelect_begin (Some files) (w\<lparr>fileInputValue := Some v\<rparr>) of
              (w', r) \<Rightarrow> Some (render w', suspend ps r))
      else None)"
| "step (SampleClick i) (w, ps) =
     (if uploadAreaShown w \<and> i < length sampleImages
      then Some (render (handleSampleImageClick_begin w),
                 ps @ [AwaitFetch (snd (sampleImages ! i))])
      else None)"
| "step (FetchSettles k fr) (w, ps) =
     (if k < length ps
      then (case ps ! k of
              AwaitFetch name \<Rightarrow>
                (case handleSampleImageClick_fetched name fr w of
                   (w', r) \<Rightarrow> Some (render w', suspend (remove_nth k ps) r))
            | AwaitRemoveBackground file u \<Rightarrow> None)
      else None)"
| "step (RemoveBackgroundSettles k outcome) (w, ps) =
     (if k < length ps
      then (case ps ! k of
              AwaitFetch name \<Rightarrow> None
            | AwaitRemoveBackground file u \<Rightarrow>
                Some (render (processImage_settle file u outcome w), remove_nth k ps))
      else None)"
| "step Download (w, ps) =
     (if resultShown w then Some (render (handleDownload w), ps) else None)"
| "step Reset (w, ps) =
     (if resultShown w then Some (render (handleReset w), ps) else None)"

fun run :: "event list \<Rightarrow> world \<times> pending list \<Rightarrow> (world \<times> pending list) option" where
  "run [] c = Some c"
| "run (e # es) c = (case step e c of None \<Rightarrow> None | Some c' \<Rightarrow> run es c')"

subsection \<open>Predicates for the invariants\<close>

text \<open>
  Either nothing is suspended and an error and a result are not both present, or exactly
  one routine is suspended, the spinner is shown, and neither an error nor a result is
  present.
\<close>

definition settled_ok :: "world \<times> pending list \<Rightarrow> bool" where
  "settled_ok c =
     (case c of (w, ps) \<Rightarrow>
        (case ps of
           [] \<Rightarrow> error w = None \<or> processedImage w = None
         | [p] \<Rightarrow> isProcessing w \<and> error w = None \<and> processedImage w = None
         | _ \<Rightarrow> False))"

text \<open>The same, with the processing flag false whenever nothing is suspended.\<close>

definition idle_or_running :: "world \<times> pending list \<Rightarrow> bool" where
  "idle_or_running c =
     (case c of (w, ps) \<Rightarrow>
        (case ps of
           [] \<Rightarrow> \<not> isProcessing w \<and> (error w = None \<or> processedImage w = None)
         | [p] \<Rightarrow> isProcessing w \<and> error w = None \<and> processedImage w = None
         | _ \<Rightarrow> False))"

text \<open>
  An event that is not the arrival of a sample body which the two checks of
  \<open>processImage\<close> turn down.
\<close>

definition fetch_passes_validation :: "event \<Rightarrow> bool" where
  "fetch_passes_validation e =
     (case e of
        FetchSettles k (Response ok status (Fulfilled blob)) \<Rightarrow>
          startsWith (blob_type blob) ''image/'' \<and> blob_size blob \<le> MAX_FILE_SIZE
      | _ \<Rightarrow> True)"

subsection \<open>Concrete inputs\<close>

text \<open>A 2 MiB JPEG and the cut-out the library returns for it.\<close>

definition photo :: File where
  "photo = \<lparr>file_type = ''image/jpeg'', file_size = 2097152, file_name = ''photo.jpg''\<rparr>"

definition cutout :: Blob where
  "cutout = \<lparr>blob_type = ''image/png'', blob_size = 1048576\<rparr>"

text \<open>A text file renamed to end in \<open>.png\<close>; an 11 MiB PNG; an 11 MiB text file.\<close>

definition renamed_text :: File where
  "renamed_text = \<lparr>file_type = ''text/plain'', file_size = 120, file_name = ''notes.png''\<rparr>"

definition big_png :: File where
  "big_png = \<lparr>file_type = ''image/png'', file_size = 11534336, file_name = ''big.png''\<rparr>"

definition big_text :: File where
  "big_text = \<lparr>file_type = ''text/plain'', file_size = 11534336, file_name = ''log.txt''\<rparr>"

text \<open>The body of a "404 Not Found" page, as the server labels it.\<close>

definition not_found_page :: Blob where
  "not_found_page = \<lparr>blob_type = ''text/html'', blob_size = 153\<rparr>"

text \<open>A sample body that is an image of 11 MiB.\<close>

definition oversized_sample :: Blob where
  "oversized_sample = \<lparr>blob_type = ''image/jpeg'', blob_size = 11534336\<rparr>"

text \<open>The state after the photo has been processed successfully on a fresh page.\<close>

definition world_with_result :: world where
  "world_with_result = processImage photo (Fulfilled cutout) initial_world"

section \<open>What one run of \<open>processImage\<close> does\<close>

lemma MAX_FILE_SIZE_value: "MAX_FILE_SIZE = 10485760"
  by (simp add: MAX_FILE_SIZE_def)

lemma invalid_type_is_not_too_large: "MSG_INVALID_TYPE \<noteq> MSG_TOO_LARGE"
  unfolding MSG_INVALID_TYPE_def MSG_TOO_LARGE_def by simp

lemma processImage_begin_invalid_type:
  "\<not> startsWith (file_type file) ''image/'' \<Longrightarrow>
   processImage_begin file w = (w\<lparr>error := Some MSG_INVALID_TYPE\<rparr>, None)"
  by (simp add: processImage_begin_def)

lemma processImage_begin_too_large:
  "startsWith (file_type file) ''image/'' \<Longrightarrow> MAX_FILE_SIZE < file_size file \<Longrightarrow>
   processImage_begin file w = (w\<lparr>error := Some MSG_TOO_LARGE\<rparr>, None)"
  by (simp add: processImage_begin_def)

lemma processImage_begin_valid:
  "startsWith (file_type file) ''image/'' \<Longrightarrow> file_size file \<le> MAX_FILE_SIZE \<Longrightarrow>
   processImage_begin file w =
     (w\<lparr>error := None, isProcessing := True, processedImage := None,
        objectUrls := objectUrls w @ [BlobUrl (urlCounter w)],
        urlCounter := Suc (urlCounter w),
        removeBackgroundCalls := removeBackgroundCalls w @ [file]\<rparr>,
      Some (BlobUrl (urlCounter w)))"
  by (simp add: processImage_begin_def createObjectURL_def Let_def)

lemma processImage_fulfilled:
  "startsWith (file_type file) ''image/'' \<Longrightarrow> file_size file \<le> MAX_FILE_SIZE \<Longrightarrow>
   processImage file (Fulfilled blob) w =
     w\<lparr>error := None, isProcessing := False,
       processedImage :=
         Some \<lparr>original = BlobUrl (urlCounter w), processed = BlobUrl (Suc (urlCounter w)),
               filename = file_name file\<rparr>,
       objectUrls := objectUrls w @ [BlobUrl (urlCounter w), BlobUrl (Suc (urlCounter w))],
       urlCounter := Suc (Suc (urlCounter w)),
       removeBackgroundCalls := removeBackgroundCalls w @ [file]\<rparr>"
  by (simp add: processImage_def processImage_begin_valid processImage_settle_def
      createObjectURL_def Let_def)

lemma processImage_rejected:
  "startsWith (file_type file) ''image/'' \<Longrightarrow> file_size file \<le> MAX_FILE_SIZE \<Longrightarrow>
   processImage file Rejected w =
     w\<lparr>error := Some MSG_PROCESSING_FAILED, isProcessing := False, processedImage := None,
       objectUrls := objectUrls w @ [BlobUrl (urlCounter w)],
       urlCounter := Suc (urlCounter w),
       removeBackgroundCalls := removeBackgroundCalls w @ [file]\<rparr>"
  by (simp add: processImage_def processImage_begin_valid processImage_settle_def)

lemma photo_is_valid:
  "startsWith (file_type photo) ''image/''" "file_size photo \<le> 10485760"
  by (simp_all add: photo_def startsWith_def)

lemma world_with_result_value:
  "world_with_result =
     initial_world
       \<lparr>processedImage :=
          Some \<lparr>original = BlobUrl 0, processed = BlobUrl 1, filename = ''photo.jpg''\<rparr>,
        objectUrls := [BlobUrl 0, BlobUrl 1], urlCounter := 2,
        removeBackgroundCalls := [photo]\<rparr>"
  unfolding world_with_result_def
  by (simp add: processImage_fulfilled photo_is_valid MAX_FILE_SIZE_value)
     (simp add: initial_world_def photo_def)

section \<open>Display handles: creation and reset\<close>

text \<open>
  C1, as the specification states it: after a successful run exactly two display handles
  exist, and a following reset releases both, so that none is live. It fails on the
  second half. On a fresh page the photo is processed successfully and the result holds
  the handles 0 and 1; after \<open>handleReset\<close> the blob URL store still holds both of them.
  \<open>handleReset\<close> (lines 132 to 138) only forgets the result, and no line of the source
  calls \<open>URL.revokeObjectURL\<close>.
\<close>

theorem C1_counterexample:
  "processedImage (processImage photo (Fulfilled cutout) initial_world) =
     Some \<lparr>original = BlobUrl 0, processed = BlobUrl 1, filename = ''photo.jpg''\<rparr>
   \<and> objectUrls (handleReset (processImage photo (Fulfilled cutout) initial_world)) =
       [BlobUrl 0, BlobUrl 1]
   \<and> length (objectUrls (handleReset (processImage photo (Fulfilled cutout) initial_world)))
       \<noteq> 0"
proof -
  have r: "processImage photo (Fulfilled cutout) initial_world = world_with_result"
    by (simp add: world_with_result_def)
  show ?thesis
    unfolding r by (simp add: world_with_result_value handleReset_def Let_def initial_world_def)
qed

text \<open>
  C1, amended: a successful run creates exactly two new display handles, different from
  each other, and stores both in the result (so exactly two are live when none was live
  before); it ends with the processing flag false and no error. A following reset clears
  the result and the error, and releases nothing: the live handles after the reset are
  those before it.
\<close>

theorem C1_two_handles_created_and_kept_by_reset:
  assumes "startsWith (file_type file) ''image/''" and "file_size file \<le> 10485760"
  shows "processedImage (processImage file (Fulfilled blob) w) =
           Some \<lparr>original = BlobUrl (urlCounter w), processed = BlobUrl (Suc (urlCounter w)),
                 filename = file_name file\<rparr>
       \<and> objectUrls (processImage file (Fulfilled blob) w) =
           objectUrls w @ [BlobUrl (urlCounter w), BlobUrl (Suc (urlCounter w))]
       \<and> BlobUrl (urlCounter w) \<noteq> BlobUrl (Suc (urlCounter w))
       \<and> isProcessing (processImage file (Fulfilled blob) w) = False
       \<and> error (processImage file (Fulfilled blob) w) = None
       \<and> processedImage (handleReset (processImage file (Fulfilled blob) w)) = None
       \<and> error (handleReset (processImage file (Fulfilled blob) w)) = None
       \<and> objectUrls (handleReset (processImage file (Fulfilled blob) w)) =
           objectUrls (processImage file (Fulfilled blob) w)"
proof -
  from assms have v: "file_size file \<le> MAX_FILE_SIZE" by (simp add: MAX_FILE_SIZE_value)
  have kept: "objectUrls (handleReset u) = objectUrls u" for u
    by (simp add: handleReset_def Let_def split: option.splits)
  have cleared: "processedImage (handleReset u) = None \<and> error (handleReset u) = None" for u
    by (simp add: handleReset_def Let_def split: option.splits)
  show ?thesis
    by (simp add: processImage_fulfilled [OF assms(1) v] kept cleared)
qed

text \<open>The amended C1 at the photo, on a fresh page.\<close>

theorem C1_witness:
  "startsWith (file_type photo) ''image/'' \<and> file_size photo \<le> 10485760
   \<and> objectUrls (processImage photo (Fulfilled cutout) initial_world) = [BlobUrl 0, BlobUrl 1]
   \<and> objectUrls (handleReset (processImage photo (Fulfilled cutout) initial_world)) =
       [BlobUrl 0, BlobUrl 1]
   \<and> processedImage (handleReset (processImage photo (Fulfilled cutout) initial_world)) = None"
  using C1_two_handles_created_and_kept_by_reset
          [OF photo_is_valid, of cutout initial_world] photo_is_valid
  by (simp add: initial_world_def)

section \<open>A run whose background removal rejects\<close>

text \<open>
  C2, as the specification states it: when the external call rejects, the
  processing-failed message is set, the processing flag becomes false, no result handles
  are created, and a prior result is left exactly as it was before the run. It fails on
  the handles. On a fresh page the photo is selected and the call rejects: no handle was
  live before the run, and one is live after it, because line 102 created the handle of
  the original before the call of line 105 and nothing releases it.
\<close>

theorem C2_counterexample:
  "objectUrls initial_world = []
   \<and> objectUrls (processImage photo Rejected initial_world) = [BlobUrl 0]
   \<and> objectUrls (processImage photo Rejected initial_world) \<noteq> objectUrls initial_world"
  by (simp add: processImage_rejected photo_is_valid MAX_FILE_SIZE_value)
     (simp add: initial_world_def)

text \<open>
  C2, amended: when the external call rejects, the error message is the
  processing-failed message, the processing flag is false, no result is stored, and the
  stored result is what it was when the run started. (It was none: \<open>processImage\<close> is
  called from the drop zone and the file input, which are rendered only while no result
  is stored, and from the sample click after line 64 has cleared the result.) The call
  was issued once, for this file. Exactly one display handle was created, the one of the
  original image, and it stays live; none is created for a processed image.
\<close>

theorem C2_rejected_run:
  assumes "startsWith (file_type file) ''image/''" and "file_size file \<le> 10485760"
    and "processedImage w = None"
  shows "error (processImage file Rejected w) = Some MSG_PROCESSING_FAILED
       \<and> isProcessing (processImage file Rejected w) = False
       \<and> processedImage (processImage file Rejected w) = None
       \<and> processedImage (processImage file Rejected w) = processedImage w
       \<and> objectUrls (processImage file Rejected w) = objectUrls w @ [BlobUrl (urlCounter w)]
       \<and> removeBackgroundCalls (processImage file Rejected w) =
           removeBackgroundCalls w @ [file]"
proof -
  from assms have v: "file_size file \<le> MAX_FILE_SIZE" by (simp add: MAX_FILE_SIZE_value)
  show ?thesis by (simp add: processImage_rejected [OF assms(1) v] assms(3))
qed

text \<open>The amended C2 at the photo, on a fresh page.\<close>

theorem C2_witness:
  "startsWith (file_type photo) ''image/'' \<and> file_size photo \<le> 10485760
   \<and> processedImage initial_world = None
   \<and> error (processImage photo Rejected initial_world) = Some MSG_PROCESSING_FAILED
   \<and> isProcessing (processImage photo Rejected initial_world) = False
   \<and> processedImage (processImage photo Rejected initial_world) = None
   \<and> objectUrls (processImage photo Rejected initial_world) = [BlobUrl 0]
   \<and> removeBackgroundCalls (processImage photo Rejected initial_world) = [photo]"
proof -
  have h: "processedImage initial_world = None"
    by (simp add: initial_world_def)
  show ?thesis
    using C2_rejected_run [OF photo_is_valid h] photo_is_valid h
    by (simp add: initial_world_def)
qed

section \<open>Sample clicks\<close>

text \<open>
  When the fetch itself rejects, or the reading of the body does, the \<open>catch\<close> of lines
  76 to 80 runs: the sample message is set, the processing flag is cleared, and
  \<open>removeBackground\<close> is not called.
\<close>

lemma sample_click_network_error:
  "handleSampleImageClick imageUrl name NetworkError outcome w =
     w\<lparr>error := Some MSG_SAMPLE_FAILED, isProcessing := False, processedImage := None\<rparr>"
  by (simp add: handleSampleImageClick_def handleSampleImageClick_begin_def
      handleSampleImageClick_fetched_def handleSampleImageClick_catch_def)

lemma sample_click_body_rejected:
  "handleSampleImageClick imageUrl name (Response ok status Rejected) outcome w =
     w\<lparr>error := Some MSG_SAMPLE_FAILED, isProcessing := False, processedImage := None\<rparr>"
  by (simp add: handleSampleImageClick_def handleSampleImageClick_begin_def
      handleSampleImageClick_fetched_def handleSampleImageClick_catch_def)

lemma sample_click_failure_issues_no_call:
  "removeBackgroundCalls (handleSampleImageClick imageUrl name NetworkError outcome w) =
     removeBackgroundCalls w"
  "removeBackgroundCalls
     (handleSampleImageClick imageUrl name (Response ok status Rejected) outcome w) =
     removeBackgroundCalls w"
  by (simp_all add: sample_click_network_error sample_click_body_rejected)

text \<open>
  C3: a sample click whose fetch fails, by a network error or by a response that is not
  OK such as a 404, sets the sample message, clears the processing flag and issues no
  processing call. The code does so for a rejected fetch (the lemmas above) and not for
  a response that is not OK: \<open>fetch\<close> fulfils on a 404, lines 68 to 72 never read
  \<open>response.ok\<close>, and the body goes to \<open>processImage\<close> as if it were the image. On a
  fresh page, a 404 whose body is a hypertext page ends with the invalid-type message and
  the processing flag still true; a 404 whose body is labelled as an image is handed to
  \<open>removeBackground\<close>.
\<close>

theorem C3_not_found_response_is_validated_as_a_file:
  "handleSampleImageClick imageUrl name (Response False 404 (Fulfilled not_found_page))
       outcome initial_world =
     initial_world\<lparr>isProcessing := True, error := Some MSG_INVALID_TYPE\<rparr>
   \<and> removeBackgroundCalls
       (handleSampleImageClick imageUrl name (Response False 404 (Fulfilled cutout))
          outcome initial_world) =
       [\<lparr>file_type = ''image/png'', file_size = 1048576, file_name = name\<rparr>]"
  by (simp add: handleSampleImageClick_def handleSampleImageClick_begin_def
      handleSampleImageClick_fetched_def processImage_begin_def processImage_settle_def
      createObjectURL_def not_found_page_def cutout_def startsWith_def MAX_FILE_SIZE_def
      initial_world_def Let_def split: settled.splits)

section \<open>Error, processing flag and result in the reachable states\<close>

lemma step_settled_ok: "settled_ok c \<Longrightarrow> step e c = Some c' \<Longrightarrow> settled_ok c'"
  apply (cases c; cases e)
  apply (auto simp: settled_ok_def uploadAreaShown_def resultShown_def render_def
      handleDragOver_def handleDragLeave_def handleDrop_begin_def handleFileSelect_begin_def
      handleSampleImageClick_begin_def handleSampleImageClick_fetched_def
      handleSampleImageClick_catch_def processImage_begin_def processImage_settle_def
      handleDownload_def handleReset_def createObjectURL_def suspend_def remove_nth_def
      Let_def
      split: list.splits if_splits option.splits prod.splits pending.splits
        fetch_result.splits settled.splits)
  done

lemma run_settled_ok: "settled_ok c \<Longrightarrow> run es c = Some c' \<Longrightarrow> settled_ok c'"
proof (induction es arbitrary: c)
  case Nil
  then show ?case by simp
next
  case (Cons e es)
  then obtain c1 where s: "step e c = Some c1" and r: "run es c1 = Some c'"
    by (auto split: option.splits)
  from Cons.prems(1) s have "settled_ok c1" by (rule step_settled_ok)
  with r show ?case by (rule Cons.IH[rotated])
qed

lemma settled_ok_initial: "settled_ok (initial_world, [])"
  by (simp add: settled_ok_def initial_world_def)

text \<open>
  Through the rendered controls, an error message and a stored result are never present
  together, and at most one routine is ever suspended.
\<close>

lemma error_never_beside_result:
  assumes "run es (initial_world, []) = Some (w, ps)"
  shows "error w = None \<or> processedImage w = None"
proof -
  have "settled_ok (w, ps)" using settled_ok_initial assms by (rule run_settled_ok)
  then show ?thesis by (auto simp: settled_ok_def split: list.splits)
qed

lemma step_idle_or_running:
  "idle_or_running c \<Longrightarrow> fetch_passes_validation e \<Longrightarrow> step e c = Some c' \<Longrightarrow>
   idle_or_running c'"
  apply (cases c; cases e)
  apply (auto simp: idle_or_running_def fetch_passes_validation_def
      uploadAreaShown_def resultShown_def render_def
      handleDragOver_def handleDragLeave_def handleDrop_begin_def handleFileSelect_begin_def
      handleSampleImageClick_begin_def handleSampleImageClick_fetched_def
      handleSampleImageClick_catch_def processImage_begin_def processImage_settle_def
      handleDownload_def handleReset_def createObjectURL_def suspend_def remove_nth_def
      Let_def
      split: list.splits if_splits option.splits prod.splits pending.splits
        fetch_result.splits settled.splits)
  done

lemma run_idle_or_running:
  "idle_or_running c \<Longrightarrow> list_all fetch_passes_validation es \<Longrightarrow> run es c = Some c' \<Longrightarrow>
   idle_or_running c'"
proof (induction es arbitrary: c)
  case Nil
  then show ?case by simp
next
  case (Cons e es)
  then obtain c1 where s: "step e c = Some c1" and r: "run es c1 = Some c'"
    by (auto split: option.splits)
  from Cons.prems have "fetch_passes_validation e" "list_all fetch_passes_validation es"
    by simp_all
  with Cons.prems(1) s have "idle_or_running c1" by (auto intro: step_idle_or_running)
  then show ?case using \<open>list_all fetch_passes_validation es\<close> r by (rule Cons.IH)
qed

text \<open>
  As long as no sample body is turned down by the checks of \<open>processImage\<close>, an error
  message is present only with the processing flag false and no result stored.
\<close>

lemma error_only_when_idle_unless_sample_body_rejected:
  assumes "run es (initial_world, []) = Some (w, ps)"
    and "list_all fetch_passes_validation es"
  shows "error w = None \<or> (\<not> isProcessing w \<and> processedImage w = None)"
proof -
  have "idle_or_running (initial_world, [])"
    by (simp add: idle_or_running_def initial_world_def)
  then have "idle_or_running (w, ps)" using assms(2,1) by (rule run_idle_or_running)
  then show ?thesis by (auto simp: idle_or_running_def split: list.splits)
qed

text \<open>
  C4: in every reachable state an error message coexists neither with the processing
  flag being true nor with a stored result. The two lemmas above give the claim on
  every path but one. The path that breaks it: on a fresh page the first sample is
  clicked, which sets the processing flag (line 63), and the fetch brings a body that is
  not an image. \<open>processImage\<close> sets the invalid-type message and returns at line 87;
  neither its \<open>finally\<close> nor the \<open>catch\<close> of the click handler runs, so nothing clears
  the flag. The state reached has the error message and the processing flag true, with
  nothing suspended that could clear it later.
\<close>

theorem C4_error_beside_processing_reached:
  "run [SampleClick 0, FetchSettles 0 (Response False 404 (Fulfilled not_found_page))]
       (initial_world, []) =
     Some (initial_world\<lparr>isProcessing := True, error := Some MSG_INVALID_TYPE,
                         fileInputValue := None\<rparr>, [])"
  by (simp add: initial_world_def sampleImages_def uploadAreaShown_def render_def
      handleSampleImageClick_begin_def handleSampleImageClick_fetched_def
      processImage_begin_def startsWith_def not_found_page_def suspend_def remove_nth_def)

section \<open>Validation\<close>

text \<open>
  C5: for every file whose media type does not start with \<open>image/\<close>, validation rejects
  with the invalid-type message, the external call is never issued, and the run never
  sets the processing flag. \<open>processImage\<close> ends in its first step, before any
  \<open>await\<close>, and the only thing it has changed is the error message.
\<close>

theorem C5_invalid_type_rejected:
  assumes "\<not> startsWith (file_type file) ''image/''"
  shows "processImage file outcome w = w\<lparr>error := Some MSG_INVALID_TYPE\<rparr>
       \<and> error (processImage file outcome w) = Some MSG_INVALID_TYPE
       \<and> snd (processImage_begin file w) = None
       \<and> removeBackgroundCalls (processImage file outcome w) = removeBackgroundCalls w
       \<and> isProcessing (processImage file outcome w) = isProcessing w"
  by (simp add: processImage_def processImage_begin_invalid_type [OF assms])

text \<open>C5 at the renamed text file, on a fresh page.\<close>

theorem C5_witness:
  "\<not> startsWith (file_type renamed_text) ''image/''
   \<and> error (processImage renamed_text (Fulfilled cutout) initial_world) =
       Some MSG_INVALID_TYPE
   \<and> removeBackgroundCalls (processImage renamed_text (Fulfilled cutout) initial_world) = []
   \<and> isProcessing (processImage renamed_text (Fulfilled cutout) initial_world) = False"
proof -
  have h: "\<not> startsWith (file_type renamed_text) ''image/''"
    by (simp add: renamed_text_def startsWith_def)
  show ?thesis
    using h C5_invalid_type_rejected [OF h, of "Fulfilled cutout" initial_world]
    by (simp add: initial_world_def)
qed

text \<open>
  C6: for every file with an image media type and more than 10,485,760 bytes,
  validation rejects with the too-large message, the external call is not issued, and
  the run never sets the processing flag.
\<close>

theorem C6_too_large_rejected:
  assumes "startsWith (file_type file) ''image/''" and "file_size file > 10485760"
  shows "processImage file outcome w = w\<lparr>error := Some MSG_TOO_LARGE\<rparr>
       \<and> error (processImage file outcome w) = Some MSG_TOO_LARGE
       \<and> snd (processImage_begin file w) = None
       \<and> removeBackgroundCalls (processImage file outcome w) = removeBackgroundCalls w
       \<and> isProcessing (processImage file outcome w) = isProcessing w"
proof -
  from assms(2) have "MAX_FILE_SIZE < file_size file" by (simp add: MAX_FILE_SIZE_value)
  with assms(1) show ?thesis
    by (simp add: processImage_def processImage_begin_too_large)
qed

text \<open>C6 at the 11 MiB PNG, on a fresh page.\<close>

theorem C6_witness:
  "startsWith (file_type big_png) ''image/'' \<and> file_size big_png > 10485760
   \<and> error (processImage big_png (Fulfilled cutout) initial_world) = Some MSG_TOO_LARGE
   \<and> removeBackgroundCalls (processImage big_png (Fulfilled cutout) initial_world) = []
   \<and> isProcessing (processImage big_png (Fulfilled cutout) initial_world) = False"
proof -
  have h: "startsWith (file_type big_png) ''image/''" "file_size big_png > 10485760"
    by (simp_all add: big_png_def startsWith_def)
  show ?thesis
    using h C6_too_large_rejected [OF h, of "Fulfilled cutout" initial_world]
    by (simp add: initial_world_def)
qed

text \<open>
  At a validation failure \<open>processImage\<close> itself changes nothing but the error message.
\<close>

lemma processImage_validation_failure_only_sets_error:
  assumes "\<not> startsWith (file_type file) ''image/'' \<or> file_size file > 10485760"
  shows "processImage file outcome w =
           w\<lparr>error := Some (if \<not> startsWith (file_type file) ''image/''
                            then MSG_INVALID_TYPE else MSG_TOO_LARGE)\<rparr>"
  using assms
  by (auto simp: processImage_def processImage_begin_def MAX_FILE_SIZE_value)

text \<open>
  C7: at every validation failure (invalid type or too large) the stored result is not
  cleared, the processing flag is left false, and the only state change is the error
  message. The code does not leave the flag false when the file comes from a sample
  click. On a fresh page the flag is false; a sample is clicked, which sets it (line 63).
  A body that is an image of 11 MiB is turned down by the size check, a body that is not
  an image by the type check; both return (lines 93 and 87) before the \<open>try\<close> whose
  \<open>finally\<close> clears the flag, and the \<open>catch\<close> of the click handler is not entered.
  The run ends with the error message set and the processing flag true.
\<close>

theorem C7_sample_validation_failure_leaves_flag_set:
  "isProcessing initial_world = False
   \<and> blob_size oversized_sample > 10485760
   \<and> handleSampleImageClick
         ''https://ugc.same-assets.com/OTshhTxyo3h08kkKwkcfgkfI49AwJiYU.jpeg''
         ''sample-portrait-1.jpg'' (Response True 200 (Fulfilled oversized_sample)) Rejected
         initial_world =
       initial_world\<lparr>isProcessing := True, error := Some MSG_TOO_LARGE\<rparr>
   \<and> \<not> startsWith (blob_type not_found_page) ''image/''
   \<and> handleSampleImageClick
         ''https://ugc.same-assets.com/OTshhTxyo3h08kkKwkcfgkfI49AwJiYU.jpeg''
         ''sample-portrait-1.jpg'' (Response False 404 (Fulfilled not_found_page)) Rejected
         initial_world =
       initial_world\<lparr>isProcessing := True, error := Some MSG_INVALID_TYPE\<rparr>"
  by (simp add: handleSampleImageClick_def handleSampleImageClick_begin_def
      handleSampleImageClick_fetched_def processImage_begin_def oversized_sample_def
      not_found_page_def startsWith_def MAX_FILE_SIZE_def initial_world_def)

text \<open>
  C10: for a file whose media type does not start with \<open>image/\<close> and whose size exceeds
  10,485,760 bytes, the type check comes first: the error is the invalid-type message,
  and it is not the too-large message.
\<close>

theorem C10_type_check_first:
  assumes "\<not> startsWith (file_type file) ''image/''" and "file_size file > 10485760"
  shows "error (processImage file outcome w) = Some MSG_INVALID_TYPE
       \<and> error (processImage file outcome w) \<noteq> Some MSG_TOO_LARGE"
  by (simp add: processImage_def processImage_begin_invalid_type [OF assms(1)]
      invalid_type_is_not_too_large)

text \<open>C10 at the 11 MiB text file, on a fresh page.\<close>

theorem C10_witness:
  "\<not> startsWith (file_type big_text) ''image/'' \<and> file_size big_text > 10485760
   \<and> error (processImage big_text Rejected initial_world) = Some MSG_INVALID_TYPE
   \<and> error (processImage big_text Rejected initial_world) \<noteq> Some MSG_TOO_LARGE"
proof -
  have h: "\<not> startsWith (file_type big_text) ''image/''" "file_size big_text > 10485760"
    by (simp_all add: big_text_def startsWith_def)
  show ?thesis
    using h C10_type_check_first [OF h, of Rejected initial_world]
    by (simp add: invalid_type_is_not_too_large)
qed

section \<open>Download and reset\<close>

text \<open>
  C8: in every state with a result, the download action names the file by the fixed
  prefix followed by the original file name, links it to the processed handle, and
  makes no state transition: processing flag, result and error are unchanged (the
  recorded anchor click is the only difference).
\<close>

theorem C8_download_name_and_no_transition:
  assumes "processedImage w = Some img"
  shows "handleDownload w =
           w\<lparr>downloads := downloads w @ [(processed img, DOWNLOAD_PREFIX @ filename img)]\<rparr>
       \<and> isProcessing (handleDownload w) = isProcessing w
       \<and> processedImage (handleDownload w) = processedImage w
       \<and> error (handleDownload w) = error w"
  using assms by (simp add: handleDownload_def)

text \<open>C8 at the state that holds the photo's result.\<close>

theorem C8_witness:
  "processedImage world_with_result =
     Some \<lparr>original = BlobUrl 0, processed = BlobUrl 1, filename = ''photo.jpg''\<rparr>
   \<and> downloads (handleDownload world_with_result) =
       [(BlobUrl 1, DOWNLOAD_PREFIX @ ''photo.jpg'')]
   \<and> processedImage (handleDownload world_with_result) = processedImage world_with_result"
proof -
  have h: "processedImage world_with_result =
     Some \<lparr>original = BlobUrl 0, processed = BlobUrl 1, filename = ''photo.jpg''\<rparr>"
    by (simp add: world_with_result_value)
  show ?thesis
    using h C8_download_name_and_no_transition [OF h]
    by (simp add: world_with_result_value initial_world_def)
qed

text \<open>
  C9: in every state, resetting twice gives the state that resetting once gives; the
  second reset leaves no error, and it releases no handle a second time (a reset
  releases none at all: the live handles are untouched by either).
\<close>

theorem C9_reset_idempotent:
  "handleReset (handleReset w) = handleReset w
   \<and> error (handleReset (handleReset w)) = None
   \<and> processedImage (handleReset (handleReset w)) = None
   \<and> objectUrls (handleReset (handleReset w)) = objectUrls (handleReset w)
   \<and> objectUrls (handleReset w) = objectUrls w"
  by (simp add: handleReset_def Let_def split: option.splits)

end
